theory Spec2Isabelle
  imports Complex_Main
begin

section \<open>Python values, errors and built-ins\<close>

text \<open>
  The repository is two Python files: \<^verbatim>\<open>src/utils/models.py\<close> (class \<^verbatim>\<open>Models\<close>) and
  \<^verbatim>\<open>src/utils/view_model.py\<close> (a standalone \<^verbatim>\<open>plot_training_metrics\<close>). Neither has a
  \<^verbatim>\<open>try\<close> block, so an exception raised by any step ends the call: every step below
  returns a sum and the first \<open>Inl\<close> is the result of the operation.

  Metric values are Python floats; they are modelled as reals (no NaN, no rounding), which
  is all that \<^verbatim>\<open>max\<close>, \<^verbatim>\<open>min\<close> and \<^verbatim>\<open>list.index\<close> need.
\<close>

datatype error =
    FileNotFoundError
  | KeyError string
  | ValueError
  | TypeError
  | RuntimeError
  | OSError

datatype architecture = EfficientNetB0 | EfficientNetB1 | MobileNetV3Large | ShuffleNetV2X20

record state_dict =
  sd_arch :: architecture
  sd_out_features :: int
  sd_tensors :: nat

datatype pyval =
    PyFloat real
  | PyList "real list"
  | PyStateDict state_dict

type_synonym checkpoint = "string \<rightharpoonup> pyval"

text \<open>Sequencing: the first exception ends the computation.\<close>

definition and_then :: "error + 'a \<Rightarrow> ('a \<Rightarrow> error + 'b) \<Rightarrow> error + 'b" where
  "and_then r f = (case r of Inl e \<Rightarrow> Inl e | Inr v \<Rightarrow> f v)"

text \<open>\<^verbatim>\<open>d[k]\<close> on a dict: KeyError when the key is absent.\<close>

definition getitem :: "checkpoint \<Rightarrow> string \<Rightarrow> error + pyval" where
  "getitem d k = (case d k of None \<Rightarrow> Inl (KeyError k) | Some v \<Rightarrow> Inr v)"

text \<open>
  \<^verbatim>\<open>max(xs)\<close> keeps the first element and replaces it only by a strictly greater one;
  \<^verbatim>\<open>min(xs)\<close> is the mirror image. Both raise ValueError on an empty list.
\<close>

fun max_from :: "real \<Rightarrow> real list \<Rightarrow> real" where
  "max_from m [] = m"
| "max_from m (x # xs) = max_from (if x > m then x else m) xs"

fun py_max :: "real list \<Rightarrow> error + real" where
  "py_max [] = Inl ValueError"
| "py_max (x # xs) = Inr (max_from x xs)"

fun min_from :: "real \<Rightarrow> real list \<Rightarrow> real" where
  "min_from m [] = m"
| "min_from m (x # xs) = min_from (if x < m then x else m) xs"

fun py_min :: "real list \<Rightarrow> error + real" where
  "py_min [] = Inl ValueError"
| "py_min (x # xs) = Inr (min_from x xs)"

text \<open>\<^verbatim>\<open>xs.index(v)\<close>: the first position holding \<open>v\<close>, ValueError when there is none.\<close>

fun py_index :: "real list \<Rightarrow> real \<Rightarrow> error + nat" where
  "py_index [] v = Inl ValueError"
| "py_index (x # xs) v =
     (if x = v then Inr 0
      else (case py_index xs v of Inl e \<Rightarrow> Inl e | Inr i \<Rightarrow> Inr (Suc i)))"

text \<open>The expression \<^verbatim>\<open>xs.index(max(xs))\<close> and its mirror \<^verbatim>\<open>xs.index(min(xs))\<close>.\<close>

definition index_of_max :: "real list \<Rightarrow> error + nat" where
  "index_of_max xs = (case py_max xs of Inl e \<Rightarrow> Inl e | Inr m \<Rightarrow> py_index xs m)"

definition index_of_min :: "real list \<Rightarrow> error + nat" where
  "index_of_min xs = (case py_min xs of Inl e \<Rightarrow> Inl e | Inr m \<Rightarrow> py_index xs m)"

text \<open>
  The metric sequences are used through \<^verbatim>\<open>len\<close>, \<^verbatim>\<open>max\<close>, \<^verbatim>\<open>min\<close> and \<^verbatim>\<open>.index\<close>;
  a checkpoint entry that is not a list fails there with TypeError.
\<close>

definition as_list :: "pyval \<Rightarrow> error + real list" where
  "as_list v = (case v of PyList xs \<Rightarrow> Inr xs | _ \<Rightarrow> Inl TypeError)"

text \<open>\<^verbatim>\<open>np.arange(1, n + 1)\<close>: the epochs \<open>1, \<dots>, n\<close>.\<close>

definition arange1 :: "nat \<Rightarrow> nat list" where
  "arange1 n = [1 ..< n + 1]"

section \<open>The file system and pathlib\<close>

text \<open>
  \<^verbatim>\<open>Path(__file__)\<close> is absolute; a path is its list of components.
  \<^verbatim>\<open>str\<close> of the root is \<^verbatim>\<open>/\<close>, \<^verbatim>\<open>.parent\<close> of the root is the root.
\<close>

datatype path = Path "string list"


fun joinpath :: "path \<Rightarrow> string \<Rightarrow> path" where
  "joinpath (Path ps) c = Path (ps @ [c])"

fun str_path :: "path \<Rightarrow> string" where
  "str_path (Path ps) = (if ps = [] then ''/'' else concat (map (\<lambda>c. CHR ''/'' # c) ps))"

section \<open>Charts\<close>

text \<open>
  What the matplotlib calls are given: the lines of each axis with their data, format,
  label and marked points, the annotation, the axis labels, the legend and the title.
  An f-string is the list of its literal and interpolated pieces.
\<close>

datatype fragment =
    Lit string
  | IntF nat
  | FloatF real
  | RoundF real nat
  | StrF string

record line2d =
  line_xs :: "nat list"
  line_ys :: "real list"
  line_style :: string
  line_label :: string
  line_markevery :: "nat list option"

record annotation =
  ann_text :: "fragment list"
  ann_xy :: "nat \<times> real"
  ann_xytext :: "nat \<times> real"
  ann_arrow_color :: string

record axes =
  ax_lines :: "line2d list"
  ax_annotations :: "annotation list"
  ax_xlabel :: string
  ax_ylabel :: string
  ax_grid :: bool
  ax_ylim_top :: "real option"
  ax_legend :: "string list"

record figure =
  fig_ax1 :: axes
  fig_ax2 :: axes
  fig_title :: "fragment list"

definition new_axes :: axes where
  "new_axes = \<lparr>ax_lines = [], ax_annotations = [], ax_xlabel = [], ax_ylabel = [],
     ax_grid = False, ax_ylim_top = None, ax_legend = []\<rparr>"

definition ax_plot :: "axes \<Rightarrow> line2d \<Rightarrow> axes" where
  "ax_plot ax l = ax\<lparr>ax_lines := ax_lines ax @ [l]\<rparr>"

definition ax_annotate :: "axes \<Rightarrow> annotation \<Rightarrow> axes" where
  "ax_annotate ax a = ax\<lparr>ax_annotations := ax_annotations ax @ [a]\<rparr>"

definition get_legend_labels :: "axes \<Rightarrow> string list" where
  "get_legend_labels ax = map line_label (ax_lines ax)"

text \<open>
  The world outside the process: the checkpoint files \<^verbatim>\<open>torch.load\<close> can read and the
  paths it has been asked for, the locations where a file can be created (the directory
  exists; no routine here creates the image directory), the images written, the
  console, and what the Kaggle client and CUDA report.
\<close>

record world =
  module_file :: path
  files :: "string \<rightharpoonup> checkpoint"
  read_log :: "string list"
  can_create :: "string \<Rightarrow> bool"
  images :: "string \<rightharpoonup> figure"
  stdout :: "fragment list list"
  kaggle_credentials :: bool
  kaggle_dataset :: "(string \<times> checkpoint) list option"
  cuda_is_available :: bool

text \<open>\<^verbatim>\<open>torch.load(p)\<close>: FileNotFoundError when there is no file at \<open>p\<close>.\<close>

definition torch_load :: "world \<Rightarrow> string \<Rightarrow> (error + checkpoint) \<times> world" where
  "torch_load w p =
     ((case files w p of None \<Rightarrow> Inl FileNotFoundError | Some c \<Rightarrow> Inr c),
      w\<lparr>read_log := read_log w @ [p]\<rparr>)"

text \<open>\<^verbatim>\<open>plt.savefig(p)\<close>: FileNotFoundError when no file can be created at \<open>p\<close>.\<close>

definition savefig :: "world \<Rightarrow> string \<Rightarrow> figure \<Rightarrow> (error + unit) \<times> world" where
  "savefig w p fig =
     (if can_create w p then (Inr (), w\<lparr>images := (images w)(p \<mapsto> fig)\<rparr>)
      else (Inl FileNotFoundError, w))"

section \<open>Networks\<close>

text \<open>
  A torchvision classifier as far as this code touches it: its architecture, the shape of
  its final linear layer, where its parameters came from, its mode and its device.
\<close>

datatype device = Cuda | Cpu

datatype params = Pretrained string | FreshHead string | Restored nat

record nn_module =
  arch :: architecture
  head_in_features :: int
  head_out_features :: int
  parameters :: params
  training :: bool
  placed_on :: device

text \<open>
  The torchvision constructors: ImageNet networks with 1000 outputs; the final layer
  reads 1280 features (2048 for ShuffleNet V2 x2.0).
\<close>

definition head_width :: "architecture \<Rightarrow> int" where
  "head_width a = (case a of ShuffleNetV2X20 \<Rightarrow> 2048 | _ \<Rightarrow> 1280)"

definition torchvision_model :: "architecture \<Rightarrow> string \<Rightarrow> nn_module" where
  "torchvision_model a weights =
     \<lparr>arch = a, head_in_features = head_width a, head_out_features = 1000,
      parameters = Pretrained weights, training = True, placed_on = Cpu\<rparr>"

text \<open>
  Replacing the final layer by \<^verbatim>\<open>nn.Linear(in_features, num_classes)\<close>: a tensor with a
  negative dimension cannot be created (RuntimeError).
\<close>

definition replace_head :: "nn_module \<Rightarrow> int \<Rightarrow> error + nn_module" where
  "replace_head model num_classes =
     (if num_classes < 0 then Inl RuntimeError
      else Inr (model\<lparr>head_out_features := num_classes,
                      parameters := (case parameters model of
                                       Pretrained s \<Rightarrow> FreshHead s | p \<Rightarrow> p)\<rparr>))"

text \<open>
  \<^verbatim>\<open>model.load_state_dict(sd)\<close> is strict: the tensors must be those of the same
  architecture with the same shapes, otherwise RuntimeError; a value that is not a state
  dict is a TypeError.
\<close>

definition load_state_dict :: "nn_module \<Rightarrow> pyval \<Rightarrow> error + nn_module" where
  "load_state_dict model v =
     (case v of
        PyStateDict sd \<Rightarrow>
          (if sd_arch sd = arch model \<and> sd_out_features sd = head_out_features model
           then Inr (model\<lparr>parameters := Restored (sd_tensors sd)\<rparr>)
           else Inl RuntimeError)
      | _ \<Rightarrow> Inl TypeError)"

definition eval_mode :: "nn_module \<Rightarrow> nn_module" where
  "eval_mode model = model\<lparr>training := False\<rparr>"

definition to_device :: "nn_module \<Rightarrow> device \<Rightarrow> nn_module" where
  "to_device model d = model\<lparr>placed_on := d\<rparr>"

section \<open>Class Models\<close>

record Models =
  root_folder :: path
  download_folder :: path
  size_tuple :: "nat \<times> nat"
  device :: device
  model_weights :: "string \<rightharpoonup> pyval"


text \<open>
  \<^verbatim>\<open>download_from_kaggle\<close>: \<^verbatim>\<open>mkdir(exist_ok=True)\<close> on the download folder (its parent must
  exist), then the dataset's files are unpacked into it, replacing files of the same name.
\<close>

definition directly_under :: "string \<Rightarrow> string \<Rightarrow> bool" where
  "directly_under d p \<longleftrightarrow>
     take (length d + 1) p = d @ ''/'' \<and> CHR ''/'' \<notin> set (drop (length d + 1) p)"

fun unzip_into :: "string \<Rightarrow> (string \<times> checkpoint) list \<Rightarrow> (string \<rightharpoonup> checkpoint)
    \<Rightarrow> (string \<rightharpoonup> checkpoint)" where
  "unzip_into d [] fs = fs"
| "unzip_into d ((n, c) # rest) fs = unzip_into d rest (fs(d @ ''/'' @ n \<mapsto> c))"

definition download_from_kaggle :: "Models \<Rightarrow> world \<Rightarrow> (error + unit) \<times> Models \<times> world" where
  "download_from_kaggle self w =
     (let d = str_path (download_folder self) in
      if \<not> can_create w d then (Inl FileNotFoundError, self, w)
      else
        let w1 = w\<lparr>can_create := (\<lambda>p. can_create w p \<or> directly_under d p)\<rparr> in
        case kaggle_dataset w of
          None \<Rightarrow> (Inl OSError, self, w1)
        | Some entries \<Rightarrow> (Inr (), self, w1\<lparr>files := unzip_into d entries (files w1)\<rparr>))"

text \<open>
  The four \<^verbatim>\<open>create_new_*\<close> methods: a pretrained network, its final layer replaced by
  one with \<open>num_classes\<close> outputs, moved to the device. They do not touch \<open>self\<close>.
\<close>

definition create_new_efficientnet_b0 :: "Models \<Rightarrow> int \<Rightarrow> error + nn_module" where
  "create_new_efficientnet_b0 self num_classes =
     (case replace_head (torchvision_model EfficientNetB0 ''DEFAULT'') num_classes of
        Inl e \<Rightarrow> Inl e
      | Inr model \<Rightarrow> Inr (to_device model (device self)))"

definition create_new_efficientnet_b1 :: "Models \<Rightarrow> int \<Rightarrow> error + nn_module" where
  "create_new_efficientnet_b1 self num_classes =
     (case replace_head (torchvision_model EfficientNetB1 ''IMAGENET1K_V2'') num_classes of
        Inl e \<Rightarrow> Inl e
      | Inr model \<Rightarrow> Inr (to_device model (device self)))"

definition create_new_mobilenet_v3_large :: "Models \<Rightarrow> int \<Rightarrow> error + nn_module" where
  "create_new_mobilenet_v3_large self num_classes =
     (case replace_head (torchvision_model MobileNetV3Large ''IMAGENET1K_V2'') num_classes of
        Inl e \<Rightarrow> Inl e
      | Inr model \<Rightarrow> Inr (to_device model (device self)))"

definition create_new_shufflenet_v2_x2_0 :: "Models \<Rightarrow> int \<Rightarrow> error + nn_module" where
  "create_new_shufflenet_v2_x2_0 self num_classes =
     (case replace_head (torchvision_model ShuffleNetV2X20 ''DEFAULT'') num_classes of
        Inl e \<Rightarrow> Inl e
      | Inr model \<Rightarrow> Inr (to_device model (device self)))"

text \<open>
  The four \<^verbatim>\<open>prepare_finetuned_*\<close> methods share their body after the network is built
  (the same eight lines in each): load the checkpoint, restore the parameters, switch to
  evaluation mode, record the best F1 under the model name, move to the device. The
  registry is written last, so a call that raises leaves \<open>self\<close> as it was.
\<close>

definition best_f1_path :: "Models \<Rightarrow> string \<Rightarrow> string" where
  "best_f1_path self model_name =
     str_path (download_folder self) @ ''/'' @ model_name @ ''_best_f1.pth''"

definition restore_finetuned ::
    "Models \<Rightarrow> world \<Rightarrow> nn_module \<Rightarrow> string \<Rightarrow> (error + nn_module) \<times> Models \<times> world" where
  "restore_finetuned self w model model_name =
     (case torch_load w (best_f1_path self model_name) of
        (Inl e, w') \<Rightarrow> (Inl e, self, w')
      | (Inr checkpoint, w') \<Rightarrow>
          (case getitem checkpoint ''model_state_dict'' of
             Inl e \<Rightarrow> (Inl e, self, w')
           | Inr sd \<Rightarrow>
               (case load_state_dict model sd of
                  Inl e \<Rightarrow> (Inl e, self, w')
                | Inr loaded \<Rightarrow>
                    (case getitem checkpoint ''best_val_f1'' of
                       Inl e \<Rightarrow> (Inl e, self, w')
                     | Inr best \<Rightarrow>
                         (Inr (to_device (eval_mode loaded) (device self)),
                          self\<lparr>model_weights := (model_weights self)(model_name \<mapsto> best)\<rparr>,
                          w')))))"

definition prepare_finetuned_efficientnet_b0 ::
    "Models \<Rightarrow> world \<Rightarrow> string \<Rightarrow> int \<Rightarrow> (error + nn_module) \<times> Models \<times> world" where
  "prepare_finetuned_efficientnet_b0 self w model_name num_classes =
     (case replace_head (torchvision_model EfficientNetB0 ''DEFAULT'') num_classes of
        Inl e \<Rightarrow> (Inl e, self, w)
      | Inr model \<Rightarrow> restore_finetuned self w model model_name)"

definition prepare_finetuned_efficientnet_b1 ::
    "Models \<Rightarrow> world \<Rightarrow> string \<Rightarrow> int \<Rightarrow> (error + nn_module) \<times> Models \<times> world" where
  "prepare_finetuned_efficientnet_b1 self w model_name num_classes =
     (case replace_head (torchvision_model EfficientNetB1 ''IMAGENET1K_V2'') num_classes of
        Inl e \<Rightarrow> (Inl e, self, w)
      | Inr model \<Rightarrow> restore_finetuned self w model model_name)"

definition prepare_finetuned_mobilenet_v3_large ::
    "Models \<Rightarrow> world \<Rightarrow> string \<Rightarrow> int \<Rightarrow> (error + nn_module) \<times> Models \<times> world" where
  "prepare_finetuned_mobilenet_v3_large self w model_name num_classes =
     (case replace_head (torchvision_model MobileNetV3Large ''IMAGENET1K_V2'') num_classes of
        Inl e \<Rightarrow> (Inl e, self, w)
      | Inr model \<Rightarrow> restore_finetuned self w model model_name)"

definition prepare_finetuned_shufflenet_v2_x2_0 ::
    "Models \<Rightarrow> world \<Rightarrow> string \<Rightarrow> int \<Rightarrow> (error + nn_module) \<times> Models \<times> world" where
  "prepare_finetuned_shufflenet_v2_x2_0 self w model_name num_classes =
     (case replace_head (torchvision_model ShuffleNetV2X20 ''DEFAULT'') num_classes of
        Inl e \<Rightarrow> (Inl e, self, w)
      | Inr model \<Rightarrow> restore_finetuned self w model model_name)"

text \<open>Calling the method that belongs to an architecture.\<close>

fun create_new :: "architecture \<Rightarrow> Models \<Rightarrow> int \<Rightarrow> error + nn_module" where
  "create_new EfficientNetB0 = create_new_efficientnet_b0"
| "create_new EfficientNetB1 = create_new_efficientnet_b1"
| "create_new MobileNetV3Large = create_new_mobilenet_v3_large"
| "create_new ShuffleNetV2X20 = create_new_shufflenet_v2_x2_0"

fun prepare_finetuned ::
    "architecture \<Rightarrow> Models \<Rightarrow> world \<Rightarrow> string \<Rightarrow> int \<Rightarrow> (error + nn_module) \<times> Models \<times> world" where
  "prepare_finetuned EfficientNetB0 = prepare_finetuned_efficientnet_b0"
| "prepare_finetuned EfficientNetB1 = prepare_finetuned_efficientnet_b1"
| "prepare_finetuned MobileNetV3Large = prepare_finetuned_mobilenet_v3_large"
| "prepare_finetuned ShuffleNetV2X20 = prepare_finetuned_shufflenet_v2_x2_0"

section \<open>Plotting\<close>

text \<open>
  \<^verbatim>\<open>Models.plot_training_metrics\<close>, lines 118 to 187: the chart built from a loaded
  checkpoint. The source evaluates \<^verbatim>\<open>max(f1_metric_val)\<close> and
  \<^verbatim>\<open>f1_metric_val.index(max(f1_metric_val))\<close> several times; the list does not change in
  between, so they are evaluated once here, at their first occurrence (line 148).
  \<^verbatim>\<open>markevery=[i]\<close> marks the \<open>i\<close>-th point of the line (counted from 0), whose abscissa
  is \<open>i + 1\<close>. The figure opened and never used at line 122 and the figure sizes carry no
  data and are left out.
\<close>

definition training_chart :: "checkpoint \<Rightarrow> string \<Rightarrow> error + figure" where
  "training_chart checkpoint name_of_the_net =
     and_then (getitem checkpoint ''val_loss'') (\<lambda>v_val.
     and_then (getitem checkpoint ''train_loss'') (\<lambda>v_train.
     and_then (getitem checkpoint ''f1_metric_val'') (\<lambda>v_f1.
     and_then (as_list v_train) (\<lambda>losses_train.
     and_then (as_list v_val) (\<lambda>losses_val.
     and_then (as_list v_f1) (\<lambda>f1_metric_val.
     and_then (py_max f1_metric_val) (\<lambda>best.
     and_then (py_index f1_metric_val best) (\<lambda>best_at.
       let marker_on = [best_at];
           ax1a = ax_plot new_axes
             \<lparr>line_xs = arange1 (length losses_train), line_ys = losses_train,
              line_style = ''r'', line_label = ''Train loss'', line_markevery = None\<rparr>;
           ax1b = ax_plot ax1a
             \<lparr>line_xs = arange1 (length losses_val), line_ys = losses_val,
              line_style = ''-g'', line_label = ''Val loss'', line_markevery = None\<rparr>;
           ax1c = ax1b\<lparr>ax_xlabel := ''Epoch'', ax_ylabel := ''CrossEntropyLoss'',
                       ax_grid := True\<rparr>;
           ax2a = ax_plot new_axes
             \<lparr>line_xs = arange1 (length f1_metric_val), line_ys = f1_metric_val,
              line_style = ''-bD'', line_label = ''F1 Metric (Val)'',
              line_markevery = Some marker_on\<rparr>;
           ax2b = ax2a\<lparr>ax_ylabel := ''f1_metric_val''\<rparr>;
           ax2c = ax_annotate ax2b
             \<lparr>ann_text = [Lit ''Max F1 score after '', IntF (best_at + 1),
                          Lit '' epochs, equals: '', RoundF best 3],
              ann_xy = (best_at + 1, best),
              ann_xytext = (best_at + 1, best - 0.015),
              ann_arrow_color = ''gray''\<rparr>;
           ax1d = ax1c\<lparr>ax_legend := get_legend_labels ax1c @ get_legend_labels ax2c\<rparr>;
           ax2d = ax2c\<lparr>ax_ylim_top := Some (best * 1.015)\<rparr>
       in Inr \<lparr>fig_ax1 = ax1d, fig_ax2 = ax2d,
               fig_title = [StrF name_of_the_net,
                            Lit '' - Train and Val loss, F1 Metric after '',
                            IntF (length losses_train), Lit '' epochs'']\<rparr>))))))))"

definition image_path :: "Models \<Rightarrow> string \<Rightarrow> string" where
  "image_path self name_of_the_net =
     str_path (root_folder self) @ ''/data/images/'' @ name_of_the_net @ ''.png''"

definition plot_training_metrics ::
    "Models \<Rightarrow> world \<Rightarrow> string \<Rightarrow> string \<Rightarrow> (error + unit) \<times> Models \<times> world" where
  "plot_training_metrics self w checkpoint_path name_of_the_net =
     (case torch_load w checkpoint_path of
        (Inl e, w1) \<Rightarrow> (Inl e, self, w1)
      | (Inr checkpoint, w1) \<Rightarrow>
          (case training_chart checkpoint name_of_the_net of
             Inl e \<Rightarrow> (Inl e, self, w1)
           | Inr fig \<Rightarrow>
               (case savefig w1 (image_path self name_of_the_net) fig of
                  (r, w2) \<Rightarrow> (r, self, w2))))"

text \<open>
  The standalone \<^verbatim>\<open>plot_training_metrics\<close> of \<^verbatim>\<open>view_model.py\<close>. Its marker and its
  arrow sit on the validation loss (lines 23, 44 and 45: the minimum of \<^verbatim>\<open>losses_val\<close>);
  only the text of the annotation speaks of the F1 score (line 43).
\<close>

definition view_model_chart :: "checkpoint \<Rightarrow> error + figure" where
  "view_model_chart checkpoint =
     and_then (getitem checkpoint ''val_loss'') (\<lambda>v_val.
     and_then (getitem checkpoint ''train_loss'') (\<lambda>v_train.
     and_then (getitem checkpoint ''f1_metric_val'') (\<lambda>v_f1.
     and_then (as_list v_val) (\<lambda>losses_val.
     and_then (py_min losses_val) (\<lambda>lowest.
     and_then (py_index losses_val lowest) (\<lambda>lowest_at.
     and_then (as_list v_train) (\<lambda>losses_train.
     and_then (as_list v_f1) (\<lambda>f1_metric_val.
     and_then (py_max f1_metric_val) (\<lambda>best.
     and_then (py_index f1_metric_val best) (\<lambda>best_at.
       let marker_on = [lowest_at];
           ax1a = ax_plot new_axes
             \<lparr>line_xs = arange1 (length losses_train), line_ys = losses_train,
              line_style = ''r'', line_label = ''Train loss'', line_markevery = None\<rparr>;
           ax1b = ax_plot ax1a
             \<lparr>line_xs = arange1 (length losses_val), line_ys = losses_val,
              line_style = ''-gD'', line_label = ''Test loss'',
              line_markevery = Some marker_on\<rparr>;
           ax1c = ax_annotate ax1b
             \<lparr>ann_text = [Lit ''Max F1 score after '', IntF (best_at + 1),
                          Lit '' epochs, equals: '', FloatF best],
              ann_xy = (lowest_at + 1, lowest),
              ann_xytext = (lowest_at + 1, lowest + 0.05),
              ann_arrow_color = ''green''\<rparr>;
           ax1d = ax1c\<lparr>ax_xlabel := ''Epoch'', ax_ylabel := ''CrossEntropyLoss'',
                       ax_grid := True\<rparr>;
           ax2a = ax_plot new_axes
             \<lparr>line_xs = arange1 (length f1_metric_val), line_ys = f1_metric_val,
              line_style = ''blue'', line_label = ''F1 Metric (Val)'',
              line_markevery = None\<rparr>;
           ax2b = ax2a\<lparr>ax_ylabel := ''f1_metric_val''\<rparr>;
           ax1e = ax1d\<lparr>ax_legend := get_legend_labels ax1d @ get_legend_labels ax2b\<rparr>
       in Inr \<lparr>fig_ax1 = ax1e, fig_ax2 = ax2b,
               fig_title = [Lit ''Train and Val loss, F1 Metric after '',
                            IntF (length losses_train), Lit '' epochs'']\<rparr>))))))))))"

definition view_model_plot_training_metrics ::
    "world \<Rightarrow> string \<Rightarrow> string \<Rightarrow> string \<Rightarrow> (error + unit) \<times> world" where
  "view_model_plot_training_metrics w checkpoint_path net_name output_dir =
     (case torch_load w checkpoint_path of
        (Inl e, w1) \<Rightarrow> (Inl e, w1)
      | (Inr checkpoint, w1) \<Rightarrow>
          (case view_model_chart checkpoint of
             Inl e \<Rightarrow> (Inl e, w1)
           | Inr fig \<Rightarrow>
               (let output_path = output_dir @ ''/'' @ net_name @ ''.png'' in
                case savefig w1 output_path fig of
                  (Inl e, w2) \<Rightarrow> (Inl e, w2)
                | (Inr u, w2) \<Rightarrow>
                    (Inr (), w2\<lparr>stdout := stdout w2 @
                                  [[Lit ''Plot saved to '', StrF output_path]]\<rparr>))))"

section \<open>Sequences of calls on one Models object\<close>

datatype operation =
    CreateNew architecture int
  | PrepareFinetuned architecture string int
  | PlotTrainingMetrics string string
  | DownloadFromKaggle

datatype outcome = Raised error | Returned

text \<open>
  One call; a caller that catches the exception goes on with the object as the call
  left it.
\<close>

fun exec_op :: "Models \<Rightarrow> world \<Rightarrow> operation \<Rightarrow> outcome \<times> Models \<times> world" where
  "exec_op self w (CreateNew a k) =
     (case create_new a self k of Inl e \<Rightarrow> (Raised e, self, w) | Inr m \<Rightarrow> (Returned, self, w))"
| "exec_op self w (PrepareFinetuned a name k) =
     (case prepare_finetuned a self w name k of
        (Inl e, self', w') \<Rightarrow> (Raised e, self', w')
      | (Inr m, self', w') \<Rightarrow> (Returned, self', w'))"
| "exec_op self w (PlotTrainingMetrics p name) =
     (case plot_training_metrics self w p name of
        (Inl e, self', w') \<Rightarrow> (Raised e, self', w')
      | (Inr u, self', w') \<Rightarrow> (Returned, self', w'))"
| "exec_op self w DownloadFromKaggle =
     (case download_from_kaggle self w of
        (Inl e, self', w') \<Rightarrow> (Raised e, self', w')
      | (Inr u, self', w') \<Rightarrow> (Returned, self', w'))"

fun run :: "Models \<Rightarrow> world \<Rightarrow> operation list \<Rightarrow> Models \<times> world" where
  "run self w [] = (self, w)"
| "run self w (x # xs) = (case exec_op self w x of (r, self', w') \<Rightarrow> run self' w' xs)"



section \<open>Reading a chart\<close>

text \<open>
  What a saved chart shows: the points carrying a marker (\<^verbatim>\<open>markevery\<close> indexes the
  points of its line), the points the annotation arrows aim at, and the epoch numbers
  printed in the annotation texts.
\<close>

definition all_lines :: "figure \<Rightarrow> line2d list" where
  "all_lines fig = ax_lines (fig_ax1 fig) @ ax_lines (fig_ax2 fig)"

definition all_annotations :: "figure \<Rightarrow> annotation list" where
  "all_annotations fig = ax_annotations (fig_ax1 fig) @ ax_annotations (fig_ax2 fig)"

definition marked_of_line :: "line2d \<Rightarrow> (nat \<times> real) list" where
  "marked_of_line l =
     (case line_markevery l of
        None \<Rightarrow> []
      | Some js \<Rightarrow> map (\<lambda>i. (line_xs l ! i, line_ys l ! i))
                     (filter (\<lambda>i. i < length (line_xs l) \<and> i < length (line_ys l)) js))"

definition marked_points :: "figure \<Rightarrow> (nat \<times> real) list" where
  "marked_points fig = concat (map marked_of_line (all_lines fig))"

definition arrow_points :: "figure \<Rightarrow> (nat \<times> real) list" where
  "arrow_points fig = map ann_xy (all_annotations fig)"

fun epochs_in_text :: "fragment list \<Rightarrow> nat list" where
  "epochs_in_text [] = []"
| "epochs_in_text (IntF n # fs) = n # epochs_in_text fs"
| "epochs_in_text (f # fs) = epochs_in_text fs"

definition text_epochs :: "figure \<Rightarrow> nat list" where
  "text_epochs fig = concat (map (\<lambda>a. epochs_in_text (ann_text a)) (all_annotations fig))"

section \<open>Sample inputs\<close>

text \<open>
  A three-epoch checkpoint whose best F1 is reached twice (epochs 2 and 3) and whose
  validation loss is lowest at epoch 3, a single-epoch checkpoint, a checkpoint without
  any F1 value, and worlds holding them: one where the image directory exists, one where it does not, one without any
  checkpoint file.
\<close>

definition demo_checkpoint :: checkpoint where
  "demo_checkpoint =
     [''val_loss'' \<mapsto> PyList [0.9, 0.5, 0.4],
      ''train_loss'' \<mapsto> PyList [1.0, 0.5, 0.3],
      ''f1_metric_val'' \<mapsto> PyList [0.5, 0.9, 0.9],
      ''model_state_dict'' \<mapsto>
         PyStateDict \<lparr>sd_arch = EfficientNetB0, sd_out_features = 8, sd_tensors = 7\<rparr>,
      ''best_val_f1'' \<mapsto> PyFloat 0.9]"

definition single_epoch_checkpoint :: checkpoint where
  "single_epoch_checkpoint =
     [''val_loss'' \<mapsto> PyList [0.6],
      ''train_loss'' \<mapsto> PyList [0.7],
      ''f1_metric_val'' \<mapsto> PyList [0.8]]"

definition empty_f1_checkpoint :: checkpoint where
  "empty_f1_checkpoint =
     [''val_loss'' \<mapsto> PyList [0.6],
      ''train_loss'' \<mapsto> PyList [0.7],
      ''f1_metric_val'' \<mapsto> PyList []]"

definition demo_world :: world where
  "demo_world =
     \<lparr>module_file = Path [''repo'', ''src'', ''utils'', ''models.py''],
      files = [''/repo/data/models/net_best_f1.pth'' \<mapsto> demo_checkpoint,
               ''/repo/data/models/one_best_f1.pth'' \<mapsto> single_epoch_checkpoint,
               ''/repo/data/models/empty_best_f1.pth'' \<mapsto> empty_f1_checkpoint],
      read_log = [],
      can_create = (\<lambda>p. take 18 p = ''/repo/data/images/''),
      images = Map.empty,
      stdout = [],
      kaggle_credentials = True,
      kaggle_dataset = None,
      cuda_is_available = False\<rparr>"



definition demo_self :: Models where
  "demo_self =
     \<lparr>root_folder = Path [''repo''],
      download_folder = Path [''repo'', ''data'', ''models''],
      size_tuple = (224, 224),
      device = Cpu,
      model_weights = Map.empty\<rparr>"

section \<open>Facts about the built-ins\<close>

lemma max_from_ge_init: "m \<le> max_from m xs"
proof (induction xs arbitrary: m)
  case Nil
  show ?case by simp
next
  case (Cons x xs)
  have "(if x > m then x else m) \<le> max_from (if x > m then x else m) xs"
    by (rule Cons.IH)
  then show ?case by (simp split: if_splits)
qed

lemma max_from_ge: "x \<in> set xs \<Longrightarrow> x \<le> max_from m xs"
proof (induction xs arbitrary: m)
  case Nil
  then show ?case by simp
next
  case (Cons y ys)
  show ?case
  proof (cases "x = y")
    case True
    have "(if y > m then y else m) \<le> max_from (if y > m then y else m) ys"
      by (rule max_from_ge_init)
    with True show ?thesis by (simp split: if_splits)
  next
    case False
    with Cons.prems have "x \<in> set ys" by simp
    then show ?thesis by (simp add: Cons.IH)
  qed
qed

lemma max_from_mem: "max_from m xs = m \<or> max_from m xs \<in> set xs"
proof (induction xs arbitrary: m)
  case Nil
  show ?case by simp
next
  case (Cons y ys)
  from Cons.IH [of "if y > m then y else m"] show ?case
    by (auto split: if_splits)
qed

lemma py_max_Max: "xs \<noteq> [] \<Longrightarrow> py_max xs = Inr (Max (set xs))"
proof (cases xs)
  case Nil
  assume "xs \<noteq> []"
  with Nil show ?thesis by simp
next
  case (Cons y ys)
  have "Max (set (y # ys)) = max_from y ys"
  proof (rule Max_eqI)
    show "finite (set (y # ys))" by simp
    show "\<And>z. z \<in> set (y # ys) \<Longrightarrow> z \<le> max_from y ys"
      using max_from_ge_init [of y ys] max_from_ge [of _ ys y] by auto
    show "max_from y ys \<in> set (y # ys)"
      using max_from_mem [of y ys] by auto
  qed
  with Cons show ?thesis by simp
qed

lemma min_from_le_init: "min_from m xs \<le> m"
proof (induction xs arbitrary: m)
  case Nil
  show ?case by simp
next
  case (Cons x xs)
  have "min_from (if x < m then x else m) xs \<le> (if x < m then x else m)"
    by (rule Cons.IH)
  then show ?case by (simp split: if_splits)
qed

lemma min_from_le: "x \<in> set xs \<Longrightarrow> min_from m xs \<le> x"
proof (induction xs arbitrary: m)
  case Nil
  then show ?case by simp
next
  case (Cons y ys)
  show ?case
  proof (cases "x = y")
    case True
    have "min_from (if y < m then y else m) ys \<le> (if y < m then y else m)"
      by (rule min_from_le_init)
    with True show ?thesis by (simp split: if_splits)
  next
    case False
    with Cons.prems have "x \<in> set ys" by simp
    then show ?thesis by (simp add: Cons.IH)
  qed
qed

lemma min_from_mem: "min_from m xs = m \<or> min_from m xs \<in> set xs"
proof (induction xs arbitrary: m)
  case Nil
  show ?case by simp
next
  case (Cons y ys)
  from Cons.IH [of "if y < m then y else m"] show ?case
    by (auto split: if_splits)
qed

lemma py_min_Min: "xs \<noteq> [] \<Longrightarrow> py_min xs = Inr (Min (set xs))"
proof (cases xs)
  case Nil
  assume "xs \<noteq> []"
  with Nil show ?thesis by simp
next
  case (Cons y ys)
  have "Min (set (y # ys)) = min_from y ys"
  proof (rule Min_eqI)
    show "finite (set (y # ys))" by simp
    show "\<And>z. z \<in> set (y # ys) \<Longrightarrow> min_from y ys \<le> z"
      using min_from_le_init [of y ys] min_from_le [of _ ys y] by auto
    show "min_from y ys \<in> set (y # ys)"
      using min_from_mem [of y ys] by auto
  qed
  with Cons show ?thesis by simp
qed

lemma py_index_first:
  "v \<in> set xs \<Longrightarrow>
   \<exists>i. py_index xs v = Inr i \<and> i < length xs \<and> xs ! i = v \<and> (\<forall>j<i. xs ! j \<noteq> v)"
proof (induction xs)
  case Nil
  then show ?case by simp
next
  case (Cons y ys)
  show ?case
  proof (cases "y = v")
    case True
    then show ?thesis by simp
  next
    case False
    with Cons.prems have "v \<in> set ys" by simp
    then obtain i where i: "py_index ys v = Inr i" "i < length ys" "ys ! i = v"
      "\<forall>j<i. ys ! j \<noteq> v"
      using Cons.IH by blast
    have "\<forall>j<Suc i. (y # ys) ! j \<noteq> v"
    proof (intro allI impI)
      fix j assume "j < Suc i"
      then show "(y # ys) ! j \<noteq> v"
        using False i(4) by (cases j) auto
    qed
    with False i show ?thesis by simp
  qed
qed

lemma py_index_absent: "v \<notin> set xs \<Longrightarrow> py_index xs v = Inl ValueError"
  by (induction xs) auto

lemma index_of_max_first:
  assumes "xs \<noteq> []"
  shows "\<exists>i. index_of_max xs = Inr i \<and> py_max xs = Inr (xs ! i) \<and> i < length xs
           \<and> xs ! i = Max (set xs) \<and> (\<forall>j<i. xs ! j < Max (set xs))"
proof -
  have m: "py_max xs = Inr (Max (set xs))" using assms by (rule py_max_Max)
  have "Max (set xs) \<in> set xs" using assms by simp
  then obtain i where i: "py_index xs (Max (set xs)) = Inr i" "i < length xs"
    "xs ! i = Max (set xs)" "\<forall>j<i. xs ! j \<noteq> Max (set xs)"
    using py_index_first by blast
  have "\<forall>j<i. xs ! j < Max (set xs)"
  proof (intro allI impI)
    fix j assume j: "j < i"
    then have "xs ! j \<in> set xs" using i(2) by simp
    then have "xs ! j \<le> Max (set xs)" by simp
    with i(4) j show "xs ! j < Max (set xs)" by force
  qed
  with m i show ?thesis by (simp add: index_of_max_def)
qed

lemma index_of_min_first:
  assumes "xs \<noteq> []"
  shows "\<exists>i. index_of_min xs = Inr i \<and> py_min xs = Inr (xs ! i) \<and> i < length xs
           \<and> xs ! i = Min (set xs) \<and> (\<forall>j<i. Min (set xs) < xs ! j)"
proof -
  have m: "py_min xs = Inr (Min (set xs))" using assms by (rule py_min_Min)
  have "Min (set xs) \<in> set xs" using assms by simp
  then obtain i where i: "py_index xs (Min (set xs)) = Inr i" "i < length xs"
    "xs ! i = Min (set xs)" "\<forall>j<i. xs ! j \<noteq> Min (set xs)"
    using py_index_first by blast
  have "\<forall>j<i. Min (set xs) < xs ! j"
  proof (intro allI impI)
    fix j assume j: "j < i"
    then have "xs ! j \<in> set xs" using i(2) by simp
    then have "Min (set xs) \<le> xs ! j" by simp
    with i(4) j show "Min (set xs) < xs ! j" by force
  qed
  with m i show ?thesis by (simp add: index_of_min_def)
qed

lemma index_of_max_empty: "index_of_max [] = Inl ValueError"
  by (simp add: index_of_max_def)

section \<open>The operations, step by step\<close>

lemma arange1_nth: "i < n \<Longrightarrow> arange1 n ! i = i + 1"
proof -
  assume "i < n"
  then have "1 + i < n + 1" by simp
  then have "[1 ..< n + 1] ! i = 1 + i" by (rule nth_upt)
  then show ?thesis by (simp only: arange1_def add.commute)
qed

lemma length_arange1: "length (arange1 n) = n"
  by (simp add: arange1_def)

lemmas chart_defs = and_then_def getitem_def as_list_def new_axes_def ax_plot_def
  ax_annotate_def get_legend_labels_def arange1_nth length_arange1

lemmas observe_defs = all_lines_def all_annotations_def marked_of_line_def marked_points_def
  arrow_points_def text_epochs_def

lemma training_chart_shows:
  assumes "ck ''val_loss'' = Some (PyList vl)" and "ck ''train_loss'' = Some (PyList trl)"
    and "ck ''f1_metric_val'' = Some (PyList f1)"
    and "py_max f1 = Inr b" and "py_index f1 b = Inr i" and "i < length f1" and "f1 ! i = b"
  shows "\<exists>fig. training_chart ck name = Inr fig
           \<and> map line_markevery (all_lines fig) = [None, None, Some [i]]
           \<and> marked_points fig = [(i + 1, b)]
           \<and> arrow_points fig = [(i + 1, b)]
           \<and> text_epochs fig = [i + 1]"
  using assms by (simp add: training_chart_def chart_defs observe_defs Let_def)

lemma view_model_chart_shows:
  assumes "ck ''val_loss'' = Some (PyList vl)" and "ck ''train_loss'' = Some (PyList trl)"
    and "ck ''f1_metric_val'' = Some (PyList f1)"
    and "py_max f1 = Inr b" and "py_index f1 b = Inr i"
    and "py_min vl = Inr c" and "py_index vl c = Inr k" and "k < length vl" and "vl ! k = c"
  shows "\<exists>fig. view_model_chart ck = Inr fig
           \<and> map line_markevery (all_lines fig) = [None, Some [k], None]
           \<and> marked_points fig = [(k + 1, c)]
           \<and> arrow_points fig = [(k + 1, c)]
           \<and> text_epochs fig = [i + 1]"
  using assms by (simp add: view_model_chart_def chart_defs observe_defs Let_def)

lemma training_chart_needs:
  assumes "training_chart ck name = Inr fig"
  shows "\<exists>vl trl f1. ck ''val_loss'' = Some (PyList vl) \<and> ck ''train_loss'' = Some (PyList trl)
           \<and> ck ''f1_metric_val'' = Some (PyList f1) \<and> f1 \<noteq> []"
  using assms
  by (auto simp: training_chart_def chart_defs split: option.splits pyval.splits sum.splits)

lemma view_model_chart_needs:
  assumes "view_model_chart ck = Inr fig"
  shows "\<exists>vl trl f1. ck ''val_loss'' = Some (PyList vl) \<and> ck ''train_loss'' = Some (PyList trl)
           \<and> ck ''f1_metric_val'' = Some (PyList f1) \<and> f1 \<noteq> [] \<and> vl \<noteq> []"
  using assms
  by (auto simp: view_model_chart_def chart_defs split: option.splits pyval.splits sum.splits)

lemma plot_training_metrics_steps:
  "plot_training_metrics self w p name =
     (let w1 = w\<lparr>read_log := read_log w @ [p]\<rparr> in
      case files w p of
        None \<Rightarrow> (Inl FileNotFoundError, self, w1)
      | Some ck \<Rightarrow>
          (case training_chart ck name of
             Inl e \<Rightarrow> (Inl e, self, w1)
           | Inr fig \<Rightarrow>
               if can_create w (image_path self name)
               then (Inr (), self, w1\<lparr>images := (images w)(image_path self name \<mapsto> fig)\<rparr>)
               else (Inl FileNotFoundError, self, w1)))"
  by (simp add: plot_training_metrics_def torch_load_def savefig_def Let_def
      split: option.splits sum.splits)

lemma view_model_plot_steps:
  "view_model_plot_training_metrics w p name dir =
     (let w1 = w\<lparr>read_log := read_log w @ [p]\<rparr>; out = dir @ ''/'' @ name @ ''.png'' in
      case files w p of
        None \<Rightarrow> (Inl FileNotFoundError, w1)
      | Some ck \<Rightarrow>
          (case view_model_chart ck of
             Inl e \<Rightarrow> (Inl e, w1)
           | Inr fig \<Rightarrow>
               if can_create w out
               then (Inr (), w1\<lparr>images := (images w)(out \<mapsto> fig),
                                 stdout := stdout w @ [[Lit ''Plot saved to '', StrF out]]\<rparr>)
               else (Inl FileNotFoundError, w1)))"
  by (simp add: view_model_plot_training_metrics_def torch_load_def savefig_def Let_def
      split: option.splits sum.splits)



declare prepare_finetuned.simps [simp del] create_new.simps [simp del]

section \<open>The sample inputs, evaluated\<close>



lemma demo_file:
  "files demo_world ''/repo/data/models/net_best_f1.pth'' = Some demo_checkpoint"
  by (simp add: demo_world_def)


section \<open>The registry entry of a fine-tuned model\<close>



section \<open>The size of the final layer\<close>



section \<open>How a fine-tuned preparation call ends\<close>






lemma str_path_data_models:
  "ps \<noteq> [] \<Longrightarrow>
   str_path (joinpath (joinpath (Path ps) ''data'') ''models'') = str_path (Path ps) @ ''/data/models''"
  by simp

section \<open>Where the checkpoint is read\<close>



section \<open>Loading the same model name again\<close>




section \<open>Failures\<close>










section \<open>What the plotting routines draw and write\<close>

lemma training_chart_best:
  assumes "ck ''val_loss'' = Some (PyList vl)" and "ck ''train_loss'' = Some (PyList trl)"
    and "ck ''f1_metric_val'' = Some (PyList f1)" and "f1 \<noteq> []"
  shows "\<exists>fig i. training_chart ck name = Inr fig
           \<and> index_of_max f1 = Inr i \<and> i < length f1 \<and> f1 ! i = Max (set f1)
           \<and> (\<forall>j<i. f1 ! j < Max (set f1))
           \<and> map line_markevery (all_lines fig) = [None, None, Some [i]]
           \<and> marked_points fig = [(i + 1, Max (set f1))]
           \<and> arrow_points fig = [(i + 1, Max (set f1))]
           \<and> text_epochs fig = [i + 1]"
proof -
  from index_of_max_first [OF assms(4)] obtain i where
    "index_of_max f1 = Inr i \<and> py_max f1 = Inr (f1 ! i) \<and> i < length f1
       \<and> f1 ! i = Max (set f1) \<and> (\<forall>j<i. f1 ! j < Max (set f1))" ..
  then have i1: "index_of_max f1 = Inr i" and i2: "py_max f1 = Inr (f1 ! i)"
    and i3: "i < length f1" and i4: "f1 ! i = Max (set f1)"
    and i5: "\<forall>j<i. f1 ! j < Max (set f1)"
    by simp_all
  from i2 i4 have pm: "py_max f1 = Inr (Max (set f1))" by (simp only:)
  from i1 pm have ix: "py_index f1 (Max (set f1)) = Inr i"
    by (simp add: index_of_max_def)
  from training_chart_shows [OF assms(1-3) pm ix i3 i4, of name]
  obtain fig where "training_chart ck name = Inr fig
      \<and> map line_markevery (all_lines fig) = [None, None, Some [i]]
      \<and> marked_points fig = [(i + 1, Max (set f1))]
      \<and> arrow_points fig = [(i + 1, Max (set f1))]
      \<and> text_epochs fig = [i + 1]" ..
  then have f1: "training_chart ck name = Inr fig"
    and f2: "map line_markevery (all_lines fig) = [None, None, Some [i]]"
    and f3: "marked_points fig = [(i + 1, Max (set f1))]"
    and f4: "arrow_points fig = [(i + 1, Max (set f1))]"
    and f5: "text_epochs fig = [i + 1]"
    by simp_all
  show ?thesis
    by (intro exI [of _ fig] exI [of _ i] conjI f1 i1 i3 i4 i5 f2 f3 f4 f5)
qed

lemma view_model_chart_best:
  assumes "ck ''val_loss'' = Some (PyList vl)" and "ck ''train_loss'' = Some (PyList trl)"
    and "ck ''f1_metric_val'' = Some (PyList f1)" and "f1 \<noteq> []" and "vl \<noteq> []"
  shows "\<exists>fig i k. view_model_chart ck = Inr fig
           \<and> index_of_max f1 = Inr i \<and> i < length f1 \<and> f1 ! i = Max (set f1)
           \<and> (\<forall>j<i. f1 ! j < Max (set f1))
           \<and> index_of_min vl = Inr k \<and> k < length vl \<and> vl ! k = Min (set vl)
           \<and> (\<forall>j<k. Min (set vl) < vl ! j)
           \<and> map line_markevery (all_lines fig) = [None, Some [k], None]
           \<and> marked_points fig = [(k + 1, Min (set vl))]
           \<and> arrow_points fig = [(k + 1, Min (set vl))]
           \<and> text_epochs fig = [i + 1]"
proof -
  from index_of_max_first [OF assms(4)] obtain i where
    "index_of_max f1 = Inr i \<and> py_max f1 = Inr (f1 ! i) \<and> i < length f1
       \<and> f1 ! i = Max (set f1) \<and> (\<forall>j<i. f1 ! j < Max (set f1))" ..
  then have i1: "index_of_max f1 = Inr i" and i2: "py_max f1 = Inr (f1 ! i)"
    and i3: "i < length f1" and i4: "f1 ! i = Max (set f1)"
    and i5: "\<forall>j<i. f1 ! j < Max (set f1)"
    by simp_all
  from i2 i4 have pm: "py_max f1 = Inr (Max (set f1))" by (simp only:)
  from i1 pm have ix: "py_index f1 (Max (set f1)) = Inr i"
    by (simp add: index_of_max_def)
  from index_of_min_first [OF assms(5)] obtain k where
    "index_of_min vl = Inr k \<and> py_min vl = Inr (vl ! k) \<and> k < length vl
       \<and> vl ! k = Min (set vl) \<and> (\<forall>j<k. Min (set vl) < vl ! j)" ..
  then have k1: "index_of_min vl = Inr k" and k2: "py_min vl = Inr (vl ! k)"
    and k3: "k < length vl" and k4: "vl ! k = Min (set vl)"
    and k5: "\<forall>j<k. Min (set vl) < vl ! j"
    by simp_all
  from k2 k4 have pn: "py_min vl = Inr (Min (set vl))" by (simp only:)
  from k1 pn have kx: "py_index vl (Min (set vl)) = Inr k"
    by (simp add: index_of_min_def)
  from view_model_chart_shows [OF assms(1-3) pm ix pn kx k3 k4]
  obtain fig where "view_model_chart ck = Inr fig
      \<and> map line_markevery (all_lines fig) = [None, Some [k], None]
      \<and> marked_points fig = [(k + 1, Min (set vl))]
      \<and> arrow_points fig = [(k + 1, Min (set vl))]
      \<and> text_epochs fig = [i + 1]" ..
  then have f1: "view_model_chart ck = Inr fig"
    and f2: "map line_markevery (all_lines fig) = [None, Some [k], None]"
    and f3: "marked_points fig = [(k + 1, Min (set vl))]"
    and f4: "arrow_points fig = [(k + 1, Min (set vl))]"
    and f5: "text_epochs fig = [i + 1]"
    by simp_all
  show ?thesis
    by (intro exI [of _ fig] exI [of _ i] exI [of _ k] conjI f1 i1 i3 i4 i5 k1 k3 k4 k5 f2 f3 f4 f5)
qed

lemma plot_training_metrics_returns:
  assumes "fst (plot_training_metrics self w p name) = Inr u"
  shows "\<exists>ck fig. files w p = Some ck \<and> training_chart ck name = Inr fig
           \<and> can_create w (image_path self name)
           \<and> images (snd (snd (plot_training_metrics self w p name))) (image_path self name)
               = Some fig"
  using assms
  by (auto simp: plot_training_metrics_steps Let_def split: option.splits sum.splits if_splits)

lemma view_model_plot_returns:
  assumes "fst (view_model_plot_training_metrics w p name dir) = Inr u"
  shows "\<exists>ck fig. files w p = Some ck \<and> view_model_chart ck = Inr fig
           \<and> can_create w (dir @ ''/'' @ name @ ''.png'')
           \<and> images (snd (view_model_plot_training_metrics w p name dir))
                (dir @ ''/'' @ name @ ''.png'') = Some fig"
  using assms
  by (auto simp: view_model_plot_steps Let_def split: option.splits sum.splits if_splits)

lemma plot_training_metrics_writes:
  assumes "files w p = Some ck" and "training_chart ck name = Inr fig"
    and "can_create w (image_path self name)"
  shows "plot_training_metrics self w p name =
           (Inr (), self, w\<lparr>read_log := read_log w @ [p],
                            images := (images w)(image_path self name \<mapsto> fig)\<rparr>)"
  using assms by (simp add: plot_training_metrics_steps Let_def)

lemma view_model_plot_writes:
  assumes "files w p = Some ck" and "view_model_chart ck = Inr fig"
    and "can_create w (dir @ ''/'' @ name @ ''.png'')"
  shows "view_model_plot_training_metrics w p name dir =
           (Inr (), w\<lparr>read_log := read_log w @ [p],
                      images := (images w)(dir @ ''/'' @ name @ ''.png'' \<mapsto> fig),
                      stdout := stdout w @
                        [[Lit ''Plot saved to '', StrF (dir @ ''/'' @ name @ ''.png'')]]\<rparr>)"
  using assms by (simp add: view_model_plot_steps Let_def)



lemma demo_checkpoint_keys:
  "demo_checkpoint ''val_loss'' = Some (PyList [0.9, 0.5, 0.4])"
  "demo_checkpoint ''train_loss'' = Some (PyList [1.0, 0.5, 0.3])"
  "demo_checkpoint ''f1_metric_val'' = Some (PyList [0.5, 0.9, 0.9])"
  by (simp_all add: demo_checkpoint_def)

lemma single_epoch_checkpoint_keys:
  "single_epoch_checkpoint ''val_loss'' = Some (PyList [0.6])"
  "single_epoch_checkpoint ''train_loss'' = Some (PyList [0.7])"
  "single_epoch_checkpoint ''f1_metric_val'' = Some (PyList [0.8])"
  by (simp_all add: single_epoch_checkpoint_def)

lemma demo_index_of_max: "index_of_max [0.5, 0.9, 0.9] = Inr 1"
  by (simp add: index_of_max_def)

lemma demo_index_of_min: "index_of_min [0.9, 0.5, 0.4] = Inr 2"
  by (simp add: index_of_min_def)

lemma demo_image_path: "image_path demo_self ''net'' = ''/repo/data/images/net.png''"
  by (simp add: image_path_def demo_self_def)

lemma demo_can_create: "can_create demo_world ''/repo/data/images/net.png''"
  by (simp add: demo_world_def)


lemma demo_view_chart:
  "\<exists>fig. view_model_chart demo_checkpoint = Inr fig
     \<and> marked_points fig = [(3, 0.4)] \<and> arrow_points fig = [(3, 0.4)] \<and> text_epochs fig = [2]"
proof -
  have pm: "py_max [0.5, 0.9, 0.9] = Inr 0.9" by simp
  have ix: "py_index [0.5, 0.9, 0.9] 0.9 = Inr 1" by simp
  have pn: "py_min [0.9, 0.5, 0.4] = Inr 0.4" by simp
  have kx: "py_index [0.9, 0.5, 0.4] 0.4 = Inr 2" by simp
  have k3: "(2::nat) < length [0.9, 0.5, 0.4 :: real]" by simp
  have k4: "[0.9, 0.5, 0.4 :: real] ! 2 = 0.4" by simp
  from view_model_chart_shows [OF demo_checkpoint_keys pm ix pn kx k3 k4]
  show ?thesis by (auto simp: eval_nat_numeral)
qed

lemma plot_training_metrics_drawn:
  assumes call: "plot_training_metrics self w p name = (Inr u, self', w')"
    and present: "files w p = Some ck" and key: "ck ''f1_metric_val'' = Some (PyList f1)"
  shows "\<exists>fig i. images w' (image_path self name) = Some fig
           \<and> index_of_max f1 = Inr i \<and> i < length f1 \<and> f1 ! i = Max (set f1)
           \<and> (\<forall>j<i. f1 ! j < Max (set f1))
           \<and> map line_markevery (all_lines fig) = [None, None, Some [i]]
           \<and> marked_points fig = [(i + 1, Max (set f1))]
           \<and> arrow_points fig = [(i + 1, Max (set f1))]
           \<and> text_epochs fig = [i + 1]"
proof -
  from call have "fst (plot_training_metrics self w p name) = Inr u"
    and w': "snd (snd (plot_training_metrics self w p name)) = w'"
    by simp_all
  from plot_training_metrics_returns [OF this(1)] present w'
  obtain fig where chart: "training_chart ck name = Inr fig"
    and saved: "images w' (image_path self name) = Some fig"
    by auto
  from training_chart_needs [OF chart] key
  obtain vl trl where keys: "ck ''val_loss'' = Some (PyList vl)"
    "ck ''train_loss'' = Some (PyList trl)" and nonempty: "f1 \<noteq> []"
    by auto
  from training_chart_best [OF keys key nonempty, of name] chart saved
  show ?thesis by auto
qed

lemma view_model_plot_drawn:
  assumes call: "view_model_plot_training_metrics w p name dir = (Inr u, w')"
    and present: "files w p = Some ck" and key: "ck ''f1_metric_val'' = Some (PyList f1)"
    and val: "ck ''val_loss'' = Some (PyList vl)"
  shows "\<exists>fig i k. images w' (dir @ ''/'' @ name @ ''.png'') = Some fig
           \<and> index_of_max f1 = Inr i \<and> i < length f1 \<and> f1 ! i = Max (set f1)
           \<and> (\<forall>j<i. f1 ! j < Max (set f1))
           \<and> index_of_min vl = Inr k \<and> k < length vl \<and> vl ! k = Min (set vl)
           \<and> (\<forall>j<k. Min (set vl) < vl ! j)
           \<and> map line_markevery (all_lines fig) = [None, Some [k], None]
           \<and> marked_points fig = [(k + 1, Min (set vl))]
           \<and> arrow_points fig = [(k + 1, Min (set vl))]
           \<and> text_epochs fig = [i + 1]"
proof -
  from call have "fst (view_model_plot_training_metrics w p name dir) = Inr u"
    and w': "snd (view_model_plot_training_metrics w p name dir) = w'"
    by simp_all
  from view_model_plot_returns [OF this(1)] present w'
  obtain fig where chart: "view_model_chart ck = Inr fig"
    and saved: "images w' (dir @ ''/'' @ name @ ''.png'') = Some fig"
    by auto
  from view_model_chart_needs [OF chart] key val
  obtain trl where train: "ck ''train_loss'' = Some (PyList trl)"
    and nonempty: "f1 \<noteq> []" "vl \<noteq> []"
    by auto
  from view_model_chart_best [OF val train key nonempty] chart saved
  show ?thesis by auto
qed


lemma demo_plot_call:
  "\<exists>w'. plot_training_metrics demo_self demo_world ''/repo/data/models/net_best_f1.pth'' ''net''
     = (Inr (), demo_self, w')"
proof -
  have "[0.5, 0.9, 0.9 :: real] \<noteq> []" by simp
  from training_chart_best [OF demo_checkpoint_keys this, of "''net''"]
  obtain fig where chart: "training_chart demo_checkpoint ''net'' = Inr fig" by blast
  have "can_create demo_world (image_path demo_self ''net'')"
    by (simp only: demo_image_path demo_can_create)
  from plot_training_metrics_writes [OF demo_file chart this]
  show ?thesis by blast
qed

lemma demo_view_call:
  "\<exists>w'. view_model_plot_training_metrics demo_world ''/repo/data/models/net_best_f1.pth'' ''net''
     ''/repo/data/images'' = (Inr (), w')"
proof -
  from demo_view_chart obtain fig where chart: "view_model_chart demo_checkpoint = Inr fig"
    by blast
  have out: "''/repo/data/images'' @ ''/'' @ ''net'' @ ''.png'' = ''/repo/data/images/net.png''"
    by simp
  have "can_create demo_world (''/repo/data/images'' @ ''/'' @ ''net'' @ ''.png'')"
    using demo_can_create by (simp only: out)
  from view_model_plot_writes [OF demo_file chart this]
  show ?thesis by blast
qed

lemma demo_extremes:
  "Max (set [0.5, 0.9, 0.9 :: real]) = 0.9" "Min (set [0.9, 0.5, 0.4 :: real]) = 0.4"
  by simp_all

section \<open>The annotated epoch\<close>

text \<open>
  Claim C3, as amended. Whenever a plotting routine returns for a checkpoint whose F1
  sequence is \<open>f1\<close>, the epoch number printed in the annotation text is the one-based
  position of the maximum of \<open>f1\<close>. In \<^verbatim>\<open>Models.plot_training_metrics\<close> the marker and the
  arrow are at that epoch too (at the maximum F1 value). In the standalone
  \<^verbatim>\<open>plot_training_metrics\<close> the marker and the arrow are at the one-based position of the
  minimum of \<^verbatim>\<open>val_loss\<close> (lines 23, 44 and 45 of \<^verbatim>\<open>view_model.py\<close>).
\<close>

theorem best_epoch_annotation:
  "(\<forall>u self' w' f1.
      plot_training_metrics self w p name = (Inr u, self', w') \<and> files w p = Some ck
      \<and> ck ''f1_metric_val'' = Some (PyList f1) \<longrightarrow>
      (\<exists>fig i. images w' (image_path self name) = Some fig
         \<and> index_of_max f1 = Inr i \<and> i < length f1 \<and> f1 ! i = Max (set f1)
         \<and> text_epochs fig = [i + 1]
         \<and> marked_points fig = [(i + 1, Max (set f1))]
         \<and> arrow_points fig = [(i + 1, Max (set f1))]))
   \<and> (\<forall>u w' f1 vl.
      view_model_plot_training_metrics w p name dir = (Inr u, w') \<and> files w p = Some ck
      \<and> ck ''f1_metric_val'' = Some (PyList f1) \<and> ck ''val_loss'' = Some (PyList vl) \<longrightarrow>
      (\<exists>fig i k. images w' (dir @ ''/'' @ name @ ''.png'') = Some fig
         \<and> index_of_max f1 = Inr i \<and> i < length f1 \<and> f1 ! i = Max (set f1)
         \<and> text_epochs fig = [i + 1]
         \<and> index_of_min vl = Inr k \<and> k < length vl \<and> vl ! k = Min (set vl)
         \<and> marked_points fig = [(k + 1, Min (set vl))]
         \<and> arrow_points fig = [(k + 1, Min (set vl))]))"
proof (intro conjI allI impI)
  fix u self' and w' :: world and f1
  assume h: "plot_training_metrics self w p name = (Inr u, self', w') \<and> files w p = Some ck
      \<and> ck ''f1_metric_val'' = Some (PyList f1)"
  then have call: "plot_training_metrics self w p name = (Inr u, self', w')"
    and present: "files w p = Some ck" and key: "ck ''f1_metric_val'' = Some (PyList f1)"
    by simp_all
  from plot_training_metrics_drawn [OF call present key]
  obtain fig i where "images w' (image_path self name) = Some fig"
    "index_of_max f1 = Inr i" "i < length f1" "f1 ! i = Max (set f1)"
    "text_epochs fig = [i + 1]" "marked_points fig = [(i + 1, Max (set f1))]"
    "arrow_points fig = [(i + 1, Max (set f1))]"
    by blast
  then show "\<exists>fig i. images w' (image_path self name) = Some fig
         \<and> index_of_max f1 = Inr i \<and> i < length f1 \<and> f1 ! i = Max (set f1)
         \<and> text_epochs fig = [i + 1]
         \<and> marked_points fig = [(i + 1, Max (set f1))]
         \<and> arrow_points fig = [(i + 1, Max (set f1))]"
    by (intro exI [of _ fig] exI [of _ i] conjI)
next
  fix u and w' :: world and f1 vl
  assume h: "view_model_plot_training_metrics w p name dir = (Inr u, w') \<and> files w p = Some ck
      \<and> ck ''f1_metric_val'' = Some (PyList f1) \<and> ck ''val_loss'' = Some (PyList vl)"
  then have call: "view_model_plot_training_metrics w p name dir = (Inr u, w')"
    and present: "files w p = Some ck" and key: "ck ''f1_metric_val'' = Some (PyList f1)"
    and val: "ck ''val_loss'' = Some (PyList vl)"
    by simp_all
  from view_model_plot_drawn [OF call present key val]
  obtain fig i k where "images w' (dir @ ''/'' @ name @ ''.png'') = Some fig"
    "index_of_max f1 = Inr i" "i < length f1" "f1 ! i = Max (set f1)"
    "text_epochs fig = [i + 1]"
    "index_of_min vl = Inr k" "k < length vl" "vl ! k = Min (set vl)"
    "marked_points fig = [(k + 1, Min (set vl))]"
    "arrow_points fig = [(k + 1, Min (set vl))]"
    by blast
  then show "\<exists>fig i k. images w' (dir @ ''/'' @ name @ ''.png'') = Some fig
         \<and> index_of_max f1 = Inr i \<and> i < length f1 \<and> f1 ! i = Max (set f1)
         \<and> text_epochs fig = [i + 1]
         \<and> index_of_min vl = Inr k \<and> k < length vl \<and> vl ! k = Min (set vl)
         \<and> marked_points fig = [(k + 1, Min (set vl))]
         \<and> arrow_points fig = [(k + 1, Min (set vl))]"
    by (intro exI [of _ fig] exI [of _ i] exI [of _ k] conjI)
qed


theorem best_epoch_annotation_witness:
  "fst (plot_training_metrics demo_self demo_world ''/repo/data/models/net_best_f1.pth'' ''net'')
     = Inr ()
   \<and> files demo_world ''/repo/data/models/net_best_f1.pth'' = Some demo_checkpoint
   \<and> demo_checkpoint ''f1_metric_val'' = Some (PyList [0.5, 0.9, 0.9])
   \<and> demo_checkpoint ''val_loss'' = Some (PyList [0.9, 0.5, 0.4])
   \<and> (\<exists>fig. images (snd (snd (plot_training_metrics demo_self demo_world
          ''/repo/data/models/net_best_f1.pth'' ''net''))) (image_path demo_self ''net'')
          = Some fig
        \<and> text_epochs fig = [2] \<and> marked_points fig = [(2, 0.9)]
        \<and> arrow_points fig = [(2, 0.9)])
   \<and> fst (view_model_plot_training_metrics demo_world ''/repo/data/models/net_best_f1.pth''
        ''net'' ''/repo/data/images'') = Inr ()
   \<and> (\<exists>fig. images (snd (view_model_plot_training_metrics demo_world
          ''/repo/data/models/net_best_f1.pth'' ''net'' ''/repo/data/images''))
          (''/repo/data/images'' @ ''/'' @ ''net'' @ ''.png'') = Some fig
        \<and> text_epochs fig = [2] \<and> marked_points fig = [(3, 0.4)]
        \<and> arrow_points fig = [(3, 0.4)])"
proof -
  let ?p = "''/repo/data/models/net_best_f1.pth''"
  let ?dir = "''/repo/data/images''"
  note shown = best_epoch_annotation
    [where self = demo_self and w = demo_world and p = ?p and name = "''net''"
       and ck = demo_checkpoint and dir = ?dir]
  from demo_plot_call obtain w1 where
    call1: "plot_training_metrics demo_self demo_world ?p ''net'' = (Inr (), demo_self, w1)" ..
  from demo_view_call obtain w2 where
    call2: "view_model_plot_training_metrics demo_world ?p ''net'' ?dir = (Inr (), w2)" ..
  from shown [THEN conjunct1, rule_format,
      OF conjI [OF call1 conjI [OF demo_file demo_checkpoint_keys(3)]]]
  obtain fig i where a: "images w1 (image_path demo_self ''net'') = Some fig"
    "index_of_max [0.5, 0.9, 0.9] = Inr i"
    "text_epochs fig = [i + 1]"
    "marked_points fig = [(i + 1, Max (set [0.5, 0.9, 0.9]))]"
    "arrow_points fig = [(i + 1, Max (set [0.5, 0.9, 0.9]))]"
    by blast
  from a(2) have i: "i = 1" by (simp only: demo_index_of_max sum.inject)
  from a(3-5) have a': "text_epochs fig = [2]" "marked_points fig = [(2, 0.9)]"
    "arrow_points fig = [(2, 0.9)]"
    by (simp_all only: i demo_extremes one_add_one)
  from shown [THEN conjunct2, rule_format,
      OF conjI [OF call2 conjI [OF demo_file
        conjI [OF demo_checkpoint_keys(3) demo_checkpoint_keys(1)]]]]
  obtain fig2 j k where b: "images w2 (?dir @ ''/'' @ ''net'' @ ''.png'') = Some fig2"
    "index_of_max [0.5, 0.9, 0.9] = Inr j"
    "text_epochs fig2 = [j + 1]"
    "index_of_min [0.9, 0.5, 0.4] = Inr k"
    "marked_points fig2 = [(k + 1, Min (set [0.9, 0.5, 0.4]))]"
    "arrow_points fig2 = [(k + 1, Min (set [0.9, 0.5, 0.4]))]"
    by blast
  from b(2) have j: "j = 1" by (simp only: demo_index_of_max sum.inject)
  from b(4) have k: "k = 2" by (simp only: demo_index_of_min sum.inject)
  have three: "(2::nat) + 1 = 3" by simp
  from b(3,5,6) have b': "text_epochs fig2 = [2]" "marked_points fig2 = [(3, 0.4)]"
    "arrow_points fig2 = [(3, 0.4)]"
    by (simp_all only: j k demo_extremes one_add_one three)
  have r1: "fst (plot_training_metrics demo_self demo_world ?p ''net'') = Inr ()"
    by (simp only: call1 fst_conv)
  have r2: "fst (view_model_plot_training_metrics demo_world ?p ''net'' ?dir) = Inr ()"
    by (simp only: call2 fst_conv)
  have s1: "\<exists>fig. images (snd (snd (plot_training_metrics demo_self demo_world ?p ''net'')))
        (image_path demo_self ''net'') = Some fig
      \<and> text_epochs fig = [2] \<and> marked_points fig = [(2, 0.9)] \<and> arrow_points fig = [(2, 0.9)]"
    using a(1) a' by (intro exI [of _ fig]) (simp add: call1)
  have s2: "\<exists>fig. images (snd (view_model_plot_training_metrics demo_world ?p ''net'' ?dir))
        (?dir @ ''/'' @ ''net'' @ ''.png'') = Some fig
      \<and> text_epochs fig = [2] \<and> marked_points fig = [(3, 0.4)] \<and> arrow_points fig = [(3, 0.4)]"
    using b(1) b' by (intro exI [of _ fig2]) (simp add: call2)
  show ?thesis
    by (intro conjI r1 demo_file demo_checkpoint_keys(3) demo_checkpoint_keys(1) s1 r2 s2)
qed

text \<open>
  The claim as first stated puts marker and arrow at the best F1 epoch in both routines.
  On the sample checkpoint the best F1 is first reached at epoch 2, and the standalone
  routine prints 2 in its text, but its marker and its arrow are at epoch 3, where the
  validation loss is lowest.
\<close>

theorem standalone_arrow_is_not_at_best_f1:
  "demo_checkpoint ''f1_metric_val'' = Some (PyList [0.5, 0.9, 0.9])
   \<and> index_of_max [0.5, 0.9, 0.9] = Inr 1
   \<and> fst (view_model_plot_training_metrics demo_world ''/repo/data/models/net_best_f1.pth''
        ''net'' ''/repo/data/images'') = Inr ()
   \<and> map_option text_epochs (images (snd (view_model_plot_training_metrics demo_world
        ''/repo/data/models/net_best_f1.pth'' ''net'' ''/repo/data/images''))
        ''/repo/data/images/net.png'') = Some [2]
   \<and> map_option arrow_points (images (snd (view_model_plot_training_metrics demo_world
        ''/repo/data/models/net_best_f1.pth'' ''net'' ''/repo/data/images''))
        ''/repo/data/images/net.png'') = Some [(3, 0.4)]
   \<and> map_option marked_points (images (snd (view_model_plot_training_metrics demo_world
        ''/repo/data/models/net_best_f1.pth'' ''net'' ''/repo/data/images''))
        ''/repo/data/images/net.png'') = Some [(3, 0.4)]"
proof -
  from demo_view_chart obtain fig where fig: "view_model_chart demo_checkpoint = Inr fig"
    "marked_points fig = [(3, 0.4)]" "arrow_points fig = [(3, 0.4)]" "text_epochs fig = [2]"
    by blast
  have out: "''/repo/data/images'' @ ''/'' @ ''net'' @ ''.png'' = ''/repo/data/images/net.png''"
    by simp
  have "can_create demo_world (''/repo/data/images'' @ ''/'' @ ''net'' @ ''.png'')"
    using demo_can_create by (simp only: out)
  from view_model_plot_writes [OF demo_file fig(1) this]
  have run: "view_model_plot_training_metrics demo_world ''/repo/data/models/net_best_f1.pth''
        ''net'' ''/repo/data/images'' =
      (Inr (), demo_world\<lparr>read_log := read_log demo_world @ [''/repo/data/models/net_best_f1.pth''],
         images := (images demo_world)(''/repo/data/images/net.png'' \<mapsto> fig),
         stdout := stdout demo_world @ [[Lit ''Plot saved to '', StrF ''/repo/data/images/net.png'']]\<rparr>)"
    by (simp only: out)
  have shown: "fst (view_model_plot_training_metrics demo_world
        ''/repo/data/models/net_best_f1.pth'' ''net'' ''/repo/data/images'') = Inr ()"
    "map_option text_epochs (images (snd (view_model_plot_training_metrics demo_world
        ''/repo/data/models/net_best_f1.pth'' ''net'' ''/repo/data/images''))
        ''/repo/data/images/net.png'') = Some [2]"
    "map_option arrow_points (images (snd (view_model_plot_training_metrics demo_world
        ''/repo/data/models/net_best_f1.pth'' ''net'' ''/repo/data/images''))
        ''/repo/data/images/net.png'') = Some [(3, 0.4)]"
    "map_option marked_points (images (snd (view_model_plot_training_metrics demo_world
        ''/repo/data/models/net_best_f1.pth'' ''net'' ''/repo/data/images''))
        ''/repo/data/images/net.png'') = Some [(3, 0.4)]"
    by (simp_all add: run fig)
  show ?thesis
    by (intro conjI demo_checkpoint_keys(3) demo_index_of_max shown)
qed

section \<open>Ties between epochs\<close>




section \<open>The image file\<close>





section \<open>A single epoch\<close>

text \<open>
  Claim C7. For a checkpoint whose three sequences have length one, every look-up in the
  sequences succeeds: both charts are built, with marker, arrow and text at epoch 1, and
  the call returns unless \<^verbatim>\<open>savefig\<close> cannot create the file; no ValueError, KeyError or
  TypeError can come out of it.
\<close>

theorem single_epoch_plots:
  "files w p = Some ck \<and> ck ''val_loss'' = Some (PyList [v])
     \<and> ck ''train_loss'' = Some (PyList [t]) \<and> ck ''f1_metric_val'' = Some (PyList [f]) \<longrightarrow>
   (\<exists>fig. training_chart ck name = Inr fig \<and> marked_points fig = [(1, f)]
      \<and> arrow_points fig = [(1, f)] \<and> text_epochs fig = [1])
   \<and> (\<exists>fig. view_model_chart ck = Inr fig \<and> marked_points fig = [(1, v)]
      \<and> arrow_points fig = [(1, v)] \<and> text_epochs fig = [1])
   \<and> fst (plot_training_metrics self w p name) =
       (if can_create w (image_path self name) then Inr () else Inl FileNotFoundError)
   \<and> fst (view_model_plot_training_metrics w p name dir) =
       (if can_create w (dir @ ''/'' @ name @ ''.png'') then Inr () else Inl FileNotFoundError)"
proof
  assume h: "files w p = Some ck \<and> ck ''val_loss'' = Some (PyList [v])
     \<and> ck ''train_loss'' = Some (PyList [t]) \<and> ck ''f1_metric_val'' = Some (PyList [f])"
  then have present: "files w p = Some ck" and kv: "ck ''val_loss'' = Some (PyList [v])"
    and kt: "ck ''train_loss'' = Some (PyList [t])"
    and kf: "ck ''f1_metric_val'' = Some (PyList [f])"
    by simp_all
  have pm: "py_max [f] = Inr f" and ix: "py_index [f] f = Inr 0"
    and pn: "py_min [v] = Inr v" and kx: "py_index [v] v = Inr 0"
    by simp_all
  have l1: "(0::nat) < length [f]" and l2: "(0::nat) < length [v]"
    and e1: "[f] ! 0 = f" and e2: "[v] ! 0 = v"
    by simp_all
  from training_chart_shows [OF kv kt kf pm ix l1 e1, of name]
  obtain fig where fig: "training_chart ck name = Inr fig"
    and drawn: "marked_points fig = [(1, f)]" "arrow_points fig = [(1, f)]"
      "text_epochs fig = [1]"
    by auto
  from view_model_chart_shows [OF kv kt kf pm ix pn kx l2 e2]
  obtain fig2 where fig2: "view_model_chart ck = Inr fig2"
    and drawn2: "marked_points fig2 = [(1, v)]" "arrow_points fig2 = [(1, v)]"
      "text_epochs fig2 = [1]"
    by auto
  have a: "\<exists>fig. training_chart ck name = Inr fig \<and> marked_points fig = [(1, f)]
      \<and> arrow_points fig = [(1, f)] \<and> text_epochs fig = [1]"
    using fig drawn by (intro exI [of _ fig] conjI)
  have b: "\<exists>fig. view_model_chart ck = Inr fig \<and> marked_points fig = [(1, v)]
      \<and> arrow_points fig = [(1, v)] \<and> text_epochs fig = [1]"
    using fig2 drawn2 by (intro exI [of _ fig2] conjI)
  have c: "fst (plot_training_metrics self w p name) =
       (if can_create w (image_path self name) then Inr () else Inl FileNotFoundError)"
    using present fig by (simp add: plot_training_metrics_steps Let_def)
  have d: "fst (view_model_plot_training_metrics w p name dir) =
       (if can_create w (dir @ ''/'' @ name @ ''.png'') then Inr () else Inl FileNotFoundError)"
    using present fig2 by (simp add: view_model_plot_steps Let_def)
  show "(\<exists>fig. training_chart ck name = Inr fig \<and> marked_points fig = [(1, f)]
      \<and> arrow_points fig = [(1, f)] \<and> text_epochs fig = [1])
   \<and> (\<exists>fig. view_model_chart ck = Inr fig \<and> marked_points fig = [(1, v)]
      \<and> arrow_points fig = [(1, v)] \<and> text_epochs fig = [1])
   \<and> fst (plot_training_metrics self w p name) =
       (if can_create w (image_path self name) then Inr () else Inl FileNotFoundError)
   \<and> fst (view_model_plot_training_metrics w p name dir) =
       (if can_create w (dir @ ''/'' @ name @ ''.png'') then Inr () else Inl FileNotFoundError)"
    by (intro conjI a b c d)
qed

theorem single_epoch_plots_witness:
  "files demo_world ''/repo/data/models/one_best_f1.pth'' = Some single_epoch_checkpoint
   \<and> single_epoch_checkpoint ''val_loss'' = Some (PyList [0.6])
   \<and> single_epoch_checkpoint ''train_loss'' = Some (PyList [0.7])
   \<and> single_epoch_checkpoint ''f1_metric_val'' = Some (PyList [0.8])
   \<and> (\<exists>fig. training_chart single_epoch_checkpoint ''one'' = Inr fig
        \<and> marked_points fig = [(1, 0.8)] \<and> arrow_points fig = [(1, 0.8)]
        \<and> text_epochs fig = [1])
   \<and> fst (plot_training_metrics demo_self demo_world ''/repo/data/models/one_best_f1.pth''
        ''one'') = Inr ()
   \<and> fst (view_model_plot_training_metrics demo_world ''/repo/data/models/one_best_f1.pth''
        ''one'' ''/repo/data/images'') = Inr ()"
proof -
  let ?p = "''/repo/data/models/one_best_f1.pth''"
  note k = single_epoch_checkpoint_keys
  have present: "files demo_world ?p = Some single_epoch_checkpoint"
    by (simp add: demo_world_def)
  note single = single_epoch_plots
    [where w = demo_world and p = ?p and ck = single_epoch_checkpoint and v = "0.6"
       and t = "0.7" and f = "0.8" and self = demo_self and name = "''one''"
       and dir = "''/repo/data/images''",
     THEN mp, OF conjI [OF present conjI [OF k(1) conjI [OF k(2) k(3)]]]]
  have c1: "can_create demo_world (image_path demo_self ''one'')"
    by (simp add: demo_world_def image_path_def demo_self_def)
  have c2: "can_create demo_world (''/repo/data/images'' @ ''/'' @ ''one'' @ ''.png'')"
    by (simp add: demo_world_def)
  from single have a: "\<exists>fig. training_chart single_epoch_checkpoint ''one'' = Inr fig
        \<and> marked_points fig = [(1, 0.8)] \<and> arrow_points fig = [(1, 0.8)]
        \<and> text_epochs fig = [1]"
    by (rule conjunct1)
  from single [THEN conjunct2, THEN conjunct2, THEN conjunct1] c1
  have b: "fst (plot_training_metrics demo_self demo_world ?p ''one'') = Inr ()"
    by (simp only: if_True)
  from single [THEN conjunct2, THEN conjunct2, THEN conjunct2] c2
  have c: "fst (view_model_plot_training_metrics demo_world ?p ''one'' ''/repo/data/images'')
      = Inr ()"
    by (simp only: if_True)
  show ?thesis
    by (intro conjI present k(1) k(2) k(3) a b c)
qed

section \<open>The registry over a sequence of calls\<close>










end
